theory Spec2Isabelle
  imports Complex_Main
begin

section \<open>Errors and results\<close>

text \<open>
  Every exception of the Python source is a value. A function that can raise returns
  \<open>error + 'a\<close>, with \<open>Inl\<close> for the exception; \<open>bnd\<close> sequences two statements
  and stops at the first exception, as Python does.
\<close>

datatype error =
    TypeError
  | NameError
  | KeyError
  | IndexError
  | RuntimeError
  | ValueError
  | InvalidParameterError

definition bnd :: "error + 'a \<Rightarrow> ('a \<Rightarrow> error + 'b) \<Rightarrow> error + 'b" where
  "bnd m k = (case m of Inl e \<Rightarrow> Inl e | Inr v \<Rightarrow> k v)"

section \<open>Scenarios\<close>

text \<open>
  A \<open>Scenario\<close> is a Python \<open>Dict[str, float]\<close>: an association list in insertion order
  with unique keys. Floating-point scalars are idealised as reals throughout.
\<close>

type_synonym scenario = "(string \<times> real) list"

definition contains :: "scenario \<Rightarrow> string \<Rightarrow> bool" where
  "contains d k = (case map_of d k of None \<Rightarrow> False | Some v \<Rightarrow> True)"

definition getitem :: "scenario \<Rightarrow> string \<Rightarrow> error + real" where
  "getitem d k = (case map_of d k of None \<Rightarrow> Inl KeyError | Some v \<Rightarrow> Inr v)"

fun setitem :: "scenario \<Rightarrow> string \<Rightarrow> real \<Rightarrow> scenario" where
  "setitem [] k v = [(k, v)]"
| "setitem ((k', v') # d) k v = (if k' = k then (k, v) # d else (k', v') # setitem d k v)"

section \<open>The rollout script\<close>

text \<open>
  \<open>doMain\<close> holds dictionaries by reference, so they live in a store: a list of
  dictionaries, the reference being the position. \<open>copy\<close> allocates a new dictionary
  with the entries of the old one, and \<open>s[k] = v\<close> writes to the dictionary that \<open>s\<close>
  refers to. A reference is always one that \<open>alloc\<close> returned.
\<close>

type_synonym ref = nat
type_synonym store = "scenario list"

definition alloc :: "store \<Rightarrow> scenario \<Rightarrow> ref \<times> store" where
  "alloc h d = (length h, h @ [d])"

definition copy :: "store \<Rightarrow> ref \<Rightarrow> ref \<times> store" where
  "copy h r = alloc h (h ! r)"

definition store_item :: "store \<Rightarrow> ref \<Rightarrow> string \<Rightarrow> real \<Rightarrow> store" where
  "store_item h r k v = h[r := setitem (h ! r) k v]"

text \<open>The loop over \<open>omega_ref_vals\<close>; \<open>scenarios\<close> is the list of references built so far.\<close>

fun build_scenarios :: "store \<Rightarrow> ref \<Rightarrow> ref list \<Rightarrow> real list \<Rightarrow> ref list \<times> store" where
  "build_scenarios h nominal scenarios [] = (scenarios, h)"
| "build_scenarios h nominal scenarios (omega_ref # rest) =
     (let (s, h) = copy h nominal;
          h = store_item h s ''omega_ref'' omega_ref;
          scenarios = scenarios @ [s]
      in build_scenarios h nominal scenarios rest)"

text \<open>
  \<open>doMain\<close> up to the end of the loop: the dictionary literal, then the list of scenarios.
  The construction of \<open>STCar\<close> between the two is outside the sources and is left out.
\<close>

definition doMain :: "ref \<times> ref list \<times> store" where
  "doMain =
     (let (nominal_params, h) =
            alloc [] [(''psi_ref'', 1.0), (''v_ref'', 10.0), (''a_ref'', 0.0), (''omega_ref'', 0.0)];
          scenarios = [];
          omega_ref_vals = [- 1.5, 1.5];
          (scenarios, h) = build_scenarios h nominal_params scenarios omega_ref_vals
      in (nominal_params, scenarios, h))"

section \<open>Tensors\<close>

text \<open>
  A tensor is its shape and its entries in row-major order. Only the operations of
  \<open>torch\<close> that the source calls are modelled, each with the exceptions \<open>torch\<close> raises
  for a bad index or for shapes that do not broadcast.
\<close>

datatype 'a tensor = Tensor (shape: "nat list") (elems: "'a list")

definition numel :: "nat list \<Rightarrow> nat" where
  "numel sh = prod_list sh"

definition zeros :: "nat list \<Rightarrow> real tensor" where
  "zeros sh = Tensor sh (replicate (numel sh) 0)"

definition ones_like :: "'a tensor \<Rightarrow> 'b \<Rightarrow> 'b tensor" where
  "ones_like t one = Tensor (shape t) (replicate (numel (shape t)) one)"

definition chunks :: "nat \<Rightarrow> nat \<Rightarrow> 'a list \<Rightarrow> 'a list list" where
  "chunks n k xs = map (\<lambda>i. take n (drop (i * n) xs)) [0..<k]"

text \<open>\<open>t.shape[0]\<close>: a tensor without dimensions has no first one.\<close>

definition shape0 :: "'a tensor \<Rightarrow> error + nat" where
  "shape0 t = (case shape t of [] \<Rightarrow> Inl IndexError | b # rest \<Rightarrow> Inr b)"

text \<open>
  Broadcasting a value of shape \<open>src\<close> to the shape \<open>tgt\<close>: the shapes are aligned at
  their last dimension, and every dimension of \<open>src\<close> equals the one of \<open>tgt\<close> or is 1.
\<close>

definition broadcastable :: "nat list \<Rightarrow> nat list \<Rightarrow> bool" where
  "broadcastable src tgt =
     (length src \<le> length tgt \<and>
      list_all2 (\<lambda>s t. s = t \<or> s = 1) src (drop (length tgt - length src) tgt))"

fun expand_elems :: "nat list \<Rightarrow> nat list \<Rightarrow> 'a list \<Rightarrow> 'a list" where
  "expand_elems (s # ss) (t # ts) xs =
     (if s = t then concat (map (expand_elems ss ts) (chunks (numel ss) s xs))
      else concat (replicate t (expand_elems ss ts xs)))"
| "expand_elems ss ts xs = xs"

definition expand :: "'a tensor \<Rightarrow> nat list \<Rightarrow> error + 'a list" where
  "expand v tgt =
     (if broadcastable (shape v) tgt
      then Inr (expand_elems (replicate (length tgt - length (shape v)) 1 @ shape v) tgt (elems v))
      else Inl RuntimeError)"

text \<open>
  An assignment to a slice drops the leading dimensions of size 1 of the assigned
  tensor before it broadcasts it to the shape of the slice.
\<close>

definition strip_ones :: "'a tensor \<Rightarrow> 'a tensor" where
  "strip_ones v = Tensor (dropWhile (\<lambda>d. d = 1) (shape v)) (elems v)"

text \<open>\<open>t[:, j]\<close>: needs two dimensions and \<open>j\<close> inside the second.\<close>

definition index_col :: "'a tensor \<Rightarrow> nat \<Rightarrow> error + 'a tensor" where
  "index_col t j =
     (case shape t of
        d0 # d1 # rest \<Rightarrow>
          if j < d1
          then Inr (Tensor (d0 # rest)
                 (concat (map (\<lambda>i. take (numel rest) (drop ((i * d1 + j) * numel rest) (elems t)))
                              [0..<d0])))
          else Inl IndexError
      | _ \<Rightarrow> Inl IndexError)"

text \<open>
  Writing the entries \<open>w\<close> (already of the slice's shape, row-major) into the slice
  \<open>t[:, j]\<close> of a tensor of shape \<open>d0 # d1 # rest\<close>.
\<close>

definition write_col :: "nat \<Rightarrow> nat \<Rightarrow> nat \<Rightarrow> 'a list \<Rightarrow> nat \<Rightarrow> 'a list \<Rightarrow> 'a list" where
  "write_col d0 d1 inner old j w =
     map (\<lambda>k. if (k mod (d1 * inner)) div inner = j
              then w ! ((k div (d1 * inner)) * inner + k mod inner)
              else old ! k)
         [0..<d0 * d1 * inner]"

text \<open>\<open>t[:, j] = v\<close> for a tensor \<open>v\<close>: \<open>v\<close> is broadcast to the shape of the slice.\<close>

definition set_col :: "'a tensor \<Rightarrow> nat \<Rightarrow> 'a tensor \<Rightarrow> error + 'a tensor" where
  "set_col t j v =
     (case shape t of
        d0 # d1 # rest \<Rightarrow>
          if j < d1
          then bnd (expand (strip_ones v) (d0 # rest))
                 (\<lambda>w. Inr (Tensor (shape t) (write_col d0 d1 (numel rest) (elems t) j w)))
          else Inl IndexError
      | _ \<Rightarrow> Inl IndexError)"

text \<open>\<open>t[:, j] = c\<close> for a Python scalar \<open>c\<close>: the slice is filled.\<close>

definition fill_col :: "'a tensor \<Rightarrow> nat \<Rightarrow> 'a \<Rightarrow> error + 'a tensor" where
  "fill_col t j c =
     (case shape t of
        d0 # d1 # rest \<Rightarrow>
          if j < d1
          then Inr (Tensor (shape t)
                 (write_col d0 d1 (numel rest) (elems t) j (replicate (d0 * numel rest) c)))
          else Inl IndexError
      | _ \<Rightarrow> Inl IndexError)"

text \<open>\<open>t[:, i, j] = v\<close> for a tensor \<open>v\<close>, broadcast to the shape of the slice.\<close>

definition set_cell :: "'a tensor \<Rightarrow> nat \<Rightarrow> nat \<Rightarrow> 'a tensor \<Rightarrow> error + 'a tensor" where
  "set_cell t i j v =
     (case shape t of
        d0 # d1 # d2 # rest \<Rightarrow>
          if i < d1 \<and> j < d2
          then bnd (expand (strip_ones v) (d0 # rest))
                 (\<lambda>w. Inr (Tensor (shape t)
                    (write_col d0 (d1 * d2) (numel rest) (elems t) (i * d2 + j) w)))
          else Inl IndexError
      | _ \<Rightarrow> Inl IndexError)"

text \<open>\<open>t[i, j] = c\<close> for a Python scalar \<open>c\<close>.\<close>

definition fill_cell :: "'a tensor \<Rightarrow> nat \<Rightarrow> nat \<Rightarrow> 'a \<Rightarrow> error + 'a tensor" where
  "fill_cell t i j c =
     (case shape t of
        d0 # d1 # rest \<Rightarrow>
          if i < d0 \<and> j < d1
          then Inr (Tensor (shape t)
                 (map (\<lambda>k. if k div numel rest = i * d1 + j then c else elems t ! k)
                      [0..<d0 * d1 * numel rest]))
          else Inl IndexError
      | _ \<Rightarrow> Inl IndexError)"

text \<open>\<open>t.norm(dim=-1)\<close>: the Euclidean norm along the last dimension.\<close>

definition norm_last :: "real tensor \<Rightarrow> error + real tensor" where
  "norm_last t =
     (case rev (shape t) of
        [] \<Rightarrow> Inr (Tensor [] (map abs (elems t)))
      | n # front \<Rightarrow>
          Inr (Tensor (rev front)
                (map (\<lambda>row. sqrt (sum_list (map (\<lambda>v. v * v) row)))
                     (chunks n (numel front) (elems t)))))"

text \<open>Comparisons with a Python scalar and pointwise functions keep the shape.\<close>

definition tmap :: "('a \<Rightarrow> 'b) \<Rightarrow> 'a tensor \<Rightarrow> 'b tensor" where
  "tmap f t = Tensor (shape t) (map f (elems t))"

text \<open>
  The shape two operands broadcast to, computed on the reversed shapes, and the
  pointwise combination of two tensors under broadcasting.
\<close>

fun bshape_rev :: "nat list \<Rightarrow> nat list \<Rightarrow> nat list option" where
  "bshape_rev [] ts = Some ts"
| "bshape_rev (s # ss) [] = Some (s # ss)"
| "bshape_rev (s # ss) (t # ts) =
     (if s = t \<or> t = 1 then map_option ((#) s) (bshape_rev ss ts)
      else if s = 1 then map_option ((#) t) (bshape_rev ss ts)
      else None)"

definition tmap2 :: "('a \<Rightarrow> 'b \<Rightarrow> 'c) \<Rightarrow> 'a tensor \<Rightarrow> 'b tensor \<Rightarrow> error + 'c tensor" where
  "tmap2 f a b =
     (case bshape_rev (rev (shape a)) (rev (shape b)) of
        None \<Rightarrow> Inl RuntimeError
      | Some r \<Rightarrow>
          bnd (expand a (rev r)) (\<lambda>xs. bnd (expand b (rev r)) (\<lambda>ys.
            Inr (Tensor (rev r) (map2 f xs ys)))))"

text \<open>
  \<open>torch.logical_and(input, other, *, out=None)\<close> and \<open>torch.logical_or\<close> take two
  positional arguments; \<open>out\<close> is keyword-only. The model receives the list of
  positional arguments of the call: any other number of them is a \<open>TypeError\<close>.
\<close>

definition logical_and :: "bool tensor list \<Rightarrow> error + bool tensor" where
  "logical_and args = (case args of [a, b] \<Rightarrow> tmap2 (\<and>) a b | _ \<Rightarrow> Inl TypeError)"

definition logical_or :: "bool tensor list \<Rightarrow> error + bool tensor" where
  "logical_or args = (case args of [a, b] \<Rightarrow> tmap2 (\<or>) a b | _ \<Rightarrow> Inl TypeError)"

text \<open>\<open>t.logical_and_(other)\<close> works in place: \<open>other\<close> is broadcast to the shape of \<open>t\<close>.\<close>

definition logical_and_inplace :: "bool tensor \<Rightarrow> bool tensor \<Rightarrow> error + bool tensor" where
  "logical_and_inplace t other =
     bnd (expand other (shape t)) (\<lambda>ys. Inr (Tensor (shape t) (map2 (\<and>) (elems t) ys)))"

section \<open>The Crazyflie system\<close>

definition N_DIMS :: nat where "N_DIMS = 6"
definition N_CONTROLS :: nat where "N_CONTROLS = 4"

definition X :: nat where "X = 0"
definition Y :: nat where "Y = 1"
definition Z :: nat where "Z = 2"
definition VX :: nat where "VX = 3"
definition VY :: nat where "VY = 4"
definition VZ :: nat where "VZ = 5"

definition F :: nat where "F = 0"
definition PHI :: nat where "PHI = 1"
definition THETA :: nat where "THETA = 2"
definition PSI :: nat where "PSI = 3"

text \<open>
  \<open>validate_params\<close>: Python's \<open>and\<close> does not evaluate its right operand when the left
  one is false, so \<open>params["m"]\<close> is read only when the key is there.
\<close>

definition validate_params :: "scenario \<Rightarrow> error + bool" where
  "validate_params params =
     (let valid = True;
          valid = (valid \<and> contains params ''m'')
      in if valid then bnd (getitem params ''m'') (\<lambda>m. Inr (0 < m)) else Inr valid)"

text \<open>The attributes of a system instance that the sources read or that the constructor
  receives.\<close>

record crazyflie =
  nominal_params :: scenario
  dt :: real
  controller_dt :: real
  scenarios :: "scenario list option"

text \<open>
  Modelled from the spec: \<open>ControlAffineSystem.__init__\<close> is not among the sources;
  \<open>Crazyflie.__init__\<close> calls it with its own arguments and does nothing before or
  after the call. The spec says that \<open>nominal_params\<close> is validated at construction,
  that construction fails if the validation predicate returns false, and that a failed
  construction performs no tensor allocation; the instance owns \<open>nominal_params\<close>,
  \<open>dt\<close> and \<open>controller_dt\<close> (which defaults to \<open>dt\<close>). The exception is the one
  that the docstring of \<open>Crazyflie.__init__\<close> documents, \<open>ValueError\<close>; the spec calls
  it \<open>InvalidParameterError\<close>. The constructor runs on the number of tensor operations
  performed so far and returns that number with its result: the validation is its
  first step, and neither the validation nor the failure performs one.
\<close>

definition ControlAffineSystem_init ::
  "(scenario \<Rightarrow> error + bool) \<Rightarrow> scenario \<Rightarrow> real \<Rightarrow> real option \<Rightarrow> scenario list option
     \<Rightarrow> nat \<Rightarrow> (error + crazyflie) \<times> nat" where
  "ControlAffineSystem_init validate nominal step ctrl scen tensor_ops =
     (case validate nominal of
        Inl e \<Rightarrow> (Inl e, tensor_ops)
      | Inr valid \<Rightarrow>
          if \<not> valid then (Inl ValueError, tensor_ops)
          else (Inr \<lparr>nominal_params = nominal, dt = step,
                      controller_dt = (case ctrl of None \<Rightarrow> step | Some c \<Rightarrow> c),
                      scenarios = scen\<rparr>,
                tensor_ops))"

definition Crazyflie_init ::
  "scenario \<Rightarrow> real \<Rightarrow> real option \<Rightarrow> scenario list option \<Rightarrow> nat
     \<Rightarrow> (error + crazyflie) \<times> nat" where
  "Crazyflie_init nominal step ctrl scen tensor_ops =
     ControlAffineSystem_init validate_params nominal step ctrl scen tensor_ops"

text \<open>\<open>state_limits\<close>: the pair (upper, lower), the lower limit of \<open>z\<close> set to 0.\<close>

definition state_limits :: "real list \<times> real list" where
  "state_limits =
     (let upper_limit = replicate N_DIMS 1;
          upper_limit = upper_limit[X := 4.0];
          upper_limit = upper_limit[Y := 4.0];
          upper_limit = upper_limit[Z := 4.0];
          upper_limit = upper_limit[VX := 8.0];
          upper_limit = upper_limit[VY := 8.0];
          upper_limit = upper_limit[VZ := 8.0];
          lower_limit = map (\<lambda>v. - 1.0 * v) upper_limit;
          lower_limit = lower_limit[Z := 0]
      in (upper_limit, lower_limit))"

text \<open>A row of a state batch lies in the box of \<open>state_limits\<close>.\<close>

definition within_limits :: "real list \<Rightarrow> bool" where
  "within_limits row =
     (length row = N_DIMS \<and>
      list_all2 (\<le>) (snd state_limits) row \<and> list_all2 (\<le>) row (fst state_limits))"

text \<open>
  \<open>safe_mask\<close>: the three comparisons are the positional arguments of one call of
  \<open>torch.logical_and\<close>; Python evaluates them before the call.
\<close>

definition safe_mask_args :: "real tensor \<Rightarrow> error + bool tensor list" where
  "safe_mask_args x =
     (let safe_z_floor = 0.3;
          safe_z_ceiling = 4.0;
          safe_radius = 4
      in bnd (index_col x Z) (\<lambda>z1.
         bnd (index_col x Z) (\<lambda>z2.
         bnd (norm_last x) (\<lambda>r.
           Inr [tmap (\<lambda>v. v \<le> safe_z_ceiling) z1,
                tmap (\<lambda>v. safe_z_floor \<le> v) z2,
                tmap (\<lambda>v. v \<le> safe_radius) r]))))"

definition safe_mask :: "real tensor \<Rightarrow> error + bool tensor" where
  "safe_mask x = bnd (safe_mask_args x) (\<lambda>args. bnd (logical_and args) (\<lambda>safe_mask. Inr safe_mask))"

text \<open>
  \<open>unsafe_mask\<close>: the result of \<open>torch.logical_or\<close> is bound to a local name and the
  function ends without a \<open>return\<close>, so its value is Python's \<open>None\<close> (here \<open>None\<close>
  of the option type).
\<close>

definition unsafe_mask_args :: "real tensor \<Rightarrow> error + bool tensor list" where
  "unsafe_mask_args x =
     (let unsafe_z_floor = 0.3;
          unsafe_z_ceiling = 4.0;
          unsafe_radius = 3.5
      in bnd (index_col x Z) (\<lambda>z1.
         bnd (index_col x Z) (\<lambda>z2.
         bnd (norm_last x) (\<lambda>r.
           Inr [tmap (\<lambda>v. v < unsafe_z_floor) z1,
                tmap (\<lambda>v. unsafe_z_ceiling < v) z2,
                tmap (\<lambda>v. unsafe_radius < v) r]))))"

definition unsafe_mask :: "real tensor \<Rightarrow> error + bool tensor option" where
  "unsafe_mask x = bnd (unsafe_mask_args x) (\<lambda>args. bnd (logical_or args) (\<lambda>unsafe_mask. Inr None))"

definition goal_mask :: "real tensor \<Rightarrow> error + bool tensor" where
  "goal_mask x =
     bnd (index_col x 0) (\<lambda>c0.
       let goal_mask = ones_like c0 True in
       bnd (norm_last x) (\<lambda>r.
         let near_goal = tmap (\<lambda>v. v \<le> 0.3) r in
         bnd (logical_and_inplace goal_mask near_goal) (\<lambda>goal_mask.
         bnd (safe_mask x) (\<lambda>safe.
         bnd (logical_and_inplace goal_mask safe) (\<lambda>goal_mask.
           Inr goal_mask)))))"

text \<open>
  \<open>_f\<close>: \<open>f\<close> has shape (batch, 6, 1), so \<open>f[:, j]\<close> has shape (batch, 1), and the
  value assigned to it, \<open>x[:, k]\<close>, has shape (batch,). \<open>type_as\<close> changes the
  element type only, which the model does not have.
\<close>

definition Crazyflie_f :: "real tensor \<Rightarrow> scenario \<Rightarrow> error + real tensor" where
  "Crazyflie_f x params =
     bnd (shape0 x) (\<lambda>batch_size.
       let f = zeros [batch_size, N_DIMS, 1] in
       bnd (index_col x VX) (\<lambda>vx. bnd (set_col f X vx) (\<lambda>f.
       bnd (index_col x VY) (\<lambda>vy. bnd (set_col f Y vy) (\<lambda>f.
       bnd (index_col x VZ) (\<lambda>vz. bnd (set_col f Z vz) (\<lambda>f.
       bnd (fill_col f VZ (- 9.81)) (\<lambda>f.
         Inr f))))))))"

text \<open>
  The names bound in the module \<open>crazyflie.py\<close>: its imports and its class. Reading any
  other global name raises \<open>NameError\<close>.
\<close>

definition module_names :: "string list" where
  "module_names = [''Tuple'', ''Optional'', ''List'', ''torch'', ''np'',
                   ''ControlAffineSystem'', ''Scenario'', ''ScenarioList'', ''Crazyflie'']"

definition global_name :: "string \<Rightarrow> error + unit" where
  "global_name n = (if n \<in> set module_names then Inr () else Inl NameError)"

text \<open>
  \<open>_g\<close>: in an assignment Python evaluates the right-hand side first and the subscript
  of the target after it, so the third assignment computes its value and then looks up
  the name \<open>Crazuflie\<close>. The columns read from the state are those of the control
  indices \<open>THETA\<close> and \<open>PHI\<close>, as in the source. (A tensor divided by 0 is infinite or
  NaN in \<open>torch\<close> and raises nothing; on the reals the quotient is 0.)
\<close>

definition Crazyflie_g :: "real tensor \<Rightarrow> scenario \<Rightarrow> error + real tensor" where
  "Crazyflie_g x params =
     bnd (shape0 x) (\<lambda>batch_size.
       let g = zeros [batch_size, N_DIMS, N_CONTROLS] in
       bnd (getitem params ''m'') (\<lambda>m.
       bnd (index_col x THETA) (\<lambda>t1. let s_theta = tmap sin t1 in
       bnd (index_col x THETA) (\<lambda>t2. let c_theta = tmap cos t2 in
       bnd (index_col x PHI) (\<lambda>p1. let s_phi = tmap sin p1 in
       bnd (index_col x PHI) (\<lambda>p2. let c_phi = tmap cos p2 in
       bnd (set_cell g VX F (tmap (\<lambda>v. v / m) s_theta)) (\<lambda>g.
       bnd (tmap2 (*) (tmap uminus s_phi) c_theta) (\<lambda>sc.
       bnd (set_cell g VY F (tmap (\<lambda>v. v / m) sc)) (\<lambda>g.
       bnd (tmap2 (*) c_phi c_theta) (\<lambda>cc.
       let rhs = tmap (\<lambda>v. v / m) cc in
       bnd (global_name ''Crazuflie'') (\<lambda>_.
       bnd (set_cell g VZ F rhs) (\<lambda>g.
         Inr g))))))))))))"

definition u_eq :: "crazyflie \<Rightarrow> error + real tensor" where
  "u_eq self =
     (let u = zeros [1, N_CONTROLS] in
      bnd (getitem (nominal_params self) ''m'') (\<lambda>m.
      bnd (fill_cell u 0 F (m * 9.81)) (\<lambda>u.
        Inr u)))"

section \<open>Evaluation lemmas\<close>

lemmas idx_defs =
  X_def Y_def Z_def VX_def VY_def VZ_def F_def PHI_def THETA_def PSI_def N_DIMS_def N_CONTROLS_def

lemma bnd_Inl [simp]: "bnd (Inl e) k = Inl e"
  by (simp add: bnd_def)

lemma bnd_Inr [simp]: "bnd (Inr v) k = k v"
  by (simp add: bnd_def)

lemma logical_and_three: "logical_and [a, b, c] = Inl TypeError"
  by (simp add: logical_and_def)

lemma logical_or_three: "logical_or [a, b, c] = Inl TypeError"
  by (simp add: logical_or_def)

lemma safe_mask_args_three: "safe_mask_args x = Inr args \<Longrightarrow> \<exists>a b c. args = [a, b, c]"
  by (auto simp: safe_mask_args_def bnd_def split: sum.splits)

text \<open>\<open>safe_mask\<close> returns for no state: its one call of \<open>torch.logical_and\<close> has three
  positional arguments.\<close>

lemma safe_mask_never_returns: "safe_mask x \<noteq> Inr res"
  by (auto simp: safe_mask_def bnd_def logical_and_three dest!: safe_mask_args_three
           split: sum.splits)

lemma state_limits_eval:
  "state_limits = ([4, 4, 4, 8, 8, 8], [- 4, - 4, 0, - 8, - 8, - 8])"
  by (simp add: state_limits_def idx_defs Let_def numeral_eq_Suc)

lemma sqrt_225_16: "sqrt (225 / 16) = 15 / 4"
  by (rule real_sqrt_unique) (simp_all add: power2_eq_square)

text \<open>On a batch of shape (b, 6) and a scenario with a mass, \<open>_g\<close> ends in the lookup of
  the unbound name, whatever the batch size and the entries.\<close>

lemma Crazyflie_g_NameError:
  assumes "shape x = [b, N_DIMS]" and "map_of params ''m'' = Some m"
  shows "Crazyflie_g x params = Inl NameError"
  using assms
  by (simp add: Crazyflie_g_def shape0_def getitem_def index_col_def idx_defs
        zeros_def tmap_def set_cell_def strip_ones_def expand_def broadcastable_def tmap2_def
        global_name_def module_names_def Let_def)

text \<open>On a batch of shape (b, 6), \<open>_f\<close> fails at its first assignment unless b = 1:
  a value of shape (b,) does not broadcast to a slice of shape (b, 1).\<close>

lemma Crazyflie_f_RuntimeError:
  assumes "shape x = [b, N_DIMS]" and "b \<noteq> 1"
  shows "Crazyflie_f x params = Inl RuntimeError"
  using assms
  by (simp add: Crazyflie_f_def shape0_def index_col_def idx_defs
        zeros_def set_col_def strip_ones_def expand_def broadcastable_def Let_def)

lemma Crazyflie_f_single:
  "Crazyflie_f (Tensor [1, 6] [a0, a1, a2, a3, a4, a5]) params =
     Inr (Tensor [1, 6, 1] [a3, a4, a5, 0, 0, - 9.81])"
  by (simp add: Crazyflie_f_def shape0_def index_col_def idx_defs numel_def
        zeros_def set_col_def fill_col_def strip_ones_def expand_def broadcastable_def Let_def
        write_col_def chunks_def upt_rec)

text \<open>The loop of \<open>doMain\<close> writes only to the dictionaries it allocates: whatever the
  list of values, the dictionary at an existing reference is the same afterwards.\<close>

lemma build_scenarios_frame:
  "nominal < length h \<Longrightarrow> build_scenarios h nominal acc vals = (scs, h') \<Longrightarrow>
     h' ! nominal = h ! nominal \<and> length h' = length h + length vals"
proof (induction vals arbitrary: h acc)
  case Nil
  then show ?case by simp
next
  case (Cons v vals)
  let ?h1 = "store_item (snd (copy h nominal)) (fst (copy h nominal)) ''omega_ref'' v"
  have len: "length ?h1 = Suc (length h)"
    by (simp add: copy_def alloc_def store_item_def)
  have same: "?h1 ! nominal = h ! nominal"
    using Cons.prems(1) by (simp add: copy_def alloc_def store_item_def nth_append)
  have run: "build_scenarios ?h1 nominal (acc @ [fst (copy h nominal)]) vals = (scs, h')"
    using Cons.prems(2) by (simp add: Let_def split_beta)
  from Cons.IH[OF _ run] Cons.prems(1) len same show ?case by simp
qed

text \<open>A scenario with a positive mass constructs the system.\<close>

lemma Crazyflie_init_valid:
  "map_of nominal ''m'' = Some m \<Longrightarrow> 0 < m \<Longrightarrow>
   fst (Crazyflie_init nominal step ctrl scen tensor_ops) =
     Inr \<lparr>nominal_params = nominal, dt = step,
          controller_dt = (case ctrl of None \<Rightarrow> step | Some c \<Rightarrow> c),
          scenarios = scen\<rparr>"
  by (auto simp: Crazyflie_init_def ControlAffineSystem_init_def validate_params_def
        contains_def getitem_def)

section \<open>Region masks\<close>

text \<open>
  C1: the safe and the unsafe mask are never both true on a row. The code produces
  neither mask. At the state (0, 0, 3.75, 0, 0, 0), inside the state limits, both
  functions raise \<open>TypeError\<close>, and no state makes \<open>safe_mask\<close> return a tensor or
  \<open>unsafe_mask\<close> return anything but \<open>None\<close>. The comparisons that the two functions
  compute before the failing call are all true for the safe region and true in the
  radius test of the unsafe region: the safe radius 4 is larger than the unsafe
  radius 3.5, so the regions as written overlap.
\<close>

theorem masks_raise_and_regions_overlap:
  "safe_mask (Tensor [1, 6] [0, 0, 3.75, 0, 0, 0]) = Inl TypeError \<and>
   unsafe_mask (Tensor [1, 6] [0, 0, 3.75, 0, 0, 0]) = Inl TypeError \<and>
   safe_mask_args (Tensor [1, 6] [0, 0, 3.75, 0, 0, 0]) =
     Inr [Tensor [1] [True], Tensor [1] [True], Tensor [1] [True]] \<and>
   unsafe_mask_args (Tensor [1, 6] [0, 0, 3.75, 0, 0, 0]) =
     Inr [Tensor [1] [False], Tensor [1] [False], Tensor [1] [True]] \<and>
   within_limits [0, 0, 3.75, 0, 0, 0]"
proof -
  have box: "within_limits [0, 0, 3.75, 0, 0, 0]"
    by (simp add: within_limits_def state_limits_eval N_DIMS_def)
  have calls:
    "safe_mask (Tensor [1, 6] [0, 0, 3.75, 0, 0, 0]) = Inl TypeError \<and>
     unsafe_mask (Tensor [1, 6] [0, 0, 3.75, 0, 0, 0]) = Inl TypeError"
    by (simp add: safe_mask_def unsafe_mask_def safe_mask_args_def unsafe_mask_args_def
          index_col_def norm_last_def Z_def logical_and_three logical_or_three)
  have conds:
    "safe_mask_args (Tensor [1, 6] [0, 0, 3.75, 0, 0, 0]) =
       Inr [Tensor [1] [True], Tensor [1] [True], Tensor [1] [True]] \<and>
     unsafe_mask_args (Tensor [1, 6] [0, 0, 3.75, 0, 0, 0]) =
       Inr [Tensor [1] [False], Tensor [1] [False], Tensor [1] [True]]"
    by (simp add: safe_mask_args_def unsafe_mask_args_def
          index_col_def norm_last_def tmap_def chunks_def numel_def Z_def sqrt_225_16)
  from box calls conds show ?thesis by blast
qed

text \<open>
  C4: \<open>unsafe_mask\<close> returns a boolean vector with one entry per row. The code returns
  no vector for any state: the function has no \<open>return\<close>, and before its end the call
  of \<open>torch.logical_or\<close> with three positional arguments raises \<open>TypeError\<close>, as at the
  state (0, 0, 0.1, 0, 0, 0) below the floor.
\<close>

theorem unsafe_mask_returns_no_mask:
  "unsafe_mask (Tensor [1, 6] [0, 0, 0.1, 0, 0, 0]) = Inl TypeError \<and>
   (\<forall>x res. unsafe_mask x \<noteq> Inr (Some res))"
  by (auto simp: unsafe_mask_def unsafe_mask_args_def index_col_def norm_last_def
        idx_defs logical_or_three bnd_def split: sum.splits)

text \<open>
  C8: a row in the goal mask is in the safe mask. The code computes no goal mask:
  \<open>goal_mask\<close> calls \<open>safe_mask\<close>, which raises \<open>TypeError\<close>, at the state
  (0, 0, 0.3, 0, 0, 0) as at every other state.
\<close>

theorem goal_mask_raises:
  "goal_mask (Tensor [1, 6] [0, 0, 0.3, 0, 0, 0]) = Inl TypeError \<and>
   (\<forall>x res. goal_mask x \<noteq> Inr res)"
proof
  show "goal_mask (Tensor [1, 6] [0, 0, 0.3, 0, 0, 0]) = Inl TypeError"
    by (simp add: goal_mask_def safe_mask_def safe_mask_args_def
          index_col_def norm_last_def tmap_def chunks_def numel_def idx_defs ones_like_def
          logical_and_three logical_and_inplace_def expand_def broadcastable_def Let_def)
next
  show "\<forall>x res. goal_mask x \<noteq> Inr res"
  proof (intro allI)
    fix x res
    show "goal_mask x \<noteq> Inr res"
      using safe_mask_never_returns[of x]
      by (auto simp: goal_mask_def bnd_def Let_def split: sum.splits)
  qed
qed

section \<open>Dynamics\<close>

text \<open>
  C2: at the equilibrium state 0 the drift plus the coupling matrix times the
  equilibrium control is 0. The code cannot evaluate the sum: for every mass \<open>m\<close>,
  \<open>_f\<close> returns (0, 0, 0, 0, 0, -9.81) and \<open>u_eq\<close> returns (9.81 m, 0, 0, 0), but
  \<open>_g\<close> raises \<open>NameError\<close> at the misspelt class name.
\<close>

theorem equilibrium_g_raises:
  "Crazyflie_f (zeros [1, N_DIMS]) [(''m'', m)] = Inr (Tensor [1, 6, 1] [0, 0, 0, 0, 0, - 9.81]) \<and>
   u_eq \<lparr>nominal_params = [(''m'', m)], dt = 0.01, controller_dt = 0.01, scenarios = None\<rparr> =
     Inr (Tensor [1, 4] [m * 9.81, 0, 0, 0]) \<and>
   Crazyflie_g (zeros [1, N_DIMS]) [(''m'', m)] = Inl NameError"
proof -
  have z: "zeros [1, N_DIMS] = Tensor [1, 6] [0, 0, 0, 0, 0, 0]"
    by (simp add: zeros_def numel_def N_DIMS_def numeral_eq_Suc)
  have g: "Crazyflie_g (zeros [1, N_DIMS]) [(''m'', m)] = Inl NameError"
    by (rule Crazyflie_g_NameError[where b = 1 and m = m]) (simp_all add: zeros_def)
  have u: "u_eq \<lparr>nominal_params = [(''m'', m)], dt = 0.01, controller_dt = 0.01, scenarios = None\<rparr> =
     Inr (Tensor [1, 4] [m * 9.81, 0, 0, 0])"
    by (simp add: u_eq_def getitem_def fill_cell_def zeros_def idx_defs numel_def upt_rec)
  have f: "Crazyflie_f (zeros [1, N_DIMS]) [(''m'', m)] =
     Inr (Tensor [1, 6, 1] [0, 0, 0, 0, 0, - 9.81])"
    unfolding z by (rule Crazyflie_f_single)
  from f u g show ?thesis by blast
qed

text \<open>
  C3: for every batch size, \<open>_f\<close> returns shape (b, 6, 1) and \<open>_g\<close> shape (b, 6, 4).
  The code returns the first only for b = 1 and the second never: on a batch of two
  zero states \<open>_f\<close> raises \<open>RuntimeError\<close> (the value of shape (2,) is assigned to a
  slice of shape (2, 1)), and \<open>_g\<close> raises \<open>NameError\<close> for two rows as for one.
\<close>

theorem dynamics_shapes_fail:
  "Crazyflie_f (zeros [2, N_DIMS]) [(''m'', 1)] = Inl RuntimeError \<and>
   Crazyflie_g (zeros [2, N_DIMS]) [(''m'', 1)] = Inl NameError \<and>
   Crazyflie_g (zeros [1, N_DIMS]) [(''m'', 1)] = Inl NameError \<and>
   map_sum id shape (Crazyflie_f (zeros [1, N_DIMS]) [(''m'', 1)]) = Inr [1, 6, 1]"
proof -
  have z: "zeros [1, N_DIMS] = Tensor [1, 6] [0, 0, 0, 0, 0, 0]"
    by (simp add: zeros_def numel_def N_DIMS_def numeral_eq_Suc)
  have f2: "Crazyflie_f (zeros [2, N_DIMS]) [(''m'', 1)] = Inl RuntimeError"
    by (rule Crazyflie_f_RuntimeError[where b = 2]) (simp_all add: zeros_def)
  have g2: "Crazyflie_g (zeros [2, N_DIMS]) [(''m'', 1)] = Inl NameError"
    by (rule Crazyflie_g_NameError[where b = 2 and m = 1]) (simp_all add: zeros_def)
  have g1: "Crazyflie_g (zeros [1, N_DIMS]) [(''m'', 1)] = Inl NameError"
    by (rule Crazyflie_g_NameError[where b = 1 and m = 1]) (simp_all add: zeros_def)
  have f1: "map_sum id shape (Crazyflie_f (zeros [1, N_DIMS]) [(''m'', 1)]) = Inr [1, 6, 1]"
    unfolding z by (simp only: Crazyflie_f_single map_sum.simps tensor.sel)
  from f2 g2 g1 f1 show ?thesis by blast
qed

text \<open>
  C5: inside the state limits and under a validated scenario, \<open>_f\<close> and \<open>_g\<close> raise
  nothing and have finite entries. The state (0, 0, 1, 0, 0, 0) is inside the limits
  and the scenario with mass 1 is validated, and \<open>_g\<close> raises \<open>NameError\<close> there.
\<close>

theorem g_raises_inside_limits:
  "within_limits [0, 0, 1, 0, 0, 0] \<and>
   validate_params [(''m'', 1)] = Inr True \<and>
   Crazyflie_g (Tensor [1, 6] [0, 0, 1, 0, 0, 0]) [(''m'', 1)] = Inl NameError"
proof -
  have g: "Crazyflie_g (Tensor [1, 6] [0, 0, 1, 0, 0, 0]) [(''m'', 1)] = Inl NameError"
    by (rule Crazyflie_g_NameError[where b = 1 and m = 1]) (simp_all add: N_DIMS_def)
  have box: "within_limits [0, 0, 1, 0, 0, 0]"
    by (simp add: within_limits_def state_limits_eval N_DIMS_def)
  have valid: "validate_params [(''m'', 1)] = Inr True"
    by (simp add: validate_params_def contains_def getitem_def)
  from box valid g show ?thesis by blast
qed

text \<open>
  C10: the drift \<open>_f\<close> does not depend on the scenario: under any two scenarios it
  gives the same result for the same state, the same tensor or the same exception.
\<close>

theorem Crazyflie_f_ignores_params:
  "Crazyflie_f x params1 = Crazyflie_f x params2"
  by (simp add: Crazyflie_f_def)

section \<open>Construction\<close>




section \<open>Scenario list of the rollout script\<close>

text \<open>
  C9: after \<open>doMain\<close> has built its list of two scenarios, the dictionary
  \<open>nominal_params\<close> still maps \<open>psi_ref\<close> to 1.0, \<open>v_ref\<close> to 10.0, \<open>a_ref\<close> to 0.0 and
  \<open>omega_ref\<close> to 0.0; the two scenarios are other dictionaries than \<open>nominal_params\<close>,
  equal to it except for \<open>omega_ref\<close>, which is -1.5 in the first and 1.5 in the second.
\<close>

theorem doMain_nominal_params_unchanged:
  "(case doMain of (nominal, scs, h) \<Rightarrow>
      h ! nominal =
        [(''psi_ref'', 1.0), (''v_ref'', 10.0), (''a_ref'', 0.0), (''omega_ref'', 0.0)] \<and>
      map (\<lambda>s. h ! s) scs =
        [[(''psi_ref'', 1.0), (''v_ref'', 10.0), (''a_ref'', 0.0), (''omega_ref'', - 1.5)],
         [(''psi_ref'', 1.0), (''v_ref'', 10.0), (''a_ref'', 0.0), (''omega_ref'', 1.5)]] \<and>
      nominal \<notin> set scs)"
  by (simp add: doMain_def alloc_def copy_def store_item_def)

section \<open>Parameter validation\<close>

text \<open>
  C7: \<open>validate_params\<close> returns \<open>True\<close> exactly when the scenario has the key \<open>m\<close> with
  a positive value; it returns \<open>False\<close>, and raises nothing, when \<open>m\<close> is absent.
\<close>

theorem validate_params_iff:
  "validate_params params = Inr (\<exists>m. map_of params ''m'' = Some m \<and> 0 < m)"
  by (simp add: validate_params_def contains_def getitem_def bnd_def split: option.splits)

end
